theory Spec2Isabelle
  imports Complex_Main
begin

section \<open>Data model (frontend/src/types)\<close>

text \<open>
  \<open>number\<close> is what a slot declared \<open>number\<close> holds at run time: a finite number, \<open>NaN\<close>,
  an infinity, or \<open>undefined\<close> where an unchecked cast let it in. Finite numbers are reals:
  the arithmetic on them is exact, and there is one zero.
\<close>

datatype number = Num real | NaN | Infinity | NegInfinity | Undefined

text \<open>The operator \<open>+\<close> on such slots: \<open>undefined\<close> converts to \<open>NaN\<close>.\<close>

fun js_add :: "number \<Rightarrow> number \<Rightarrow> number" where
  "js_add (Num a) (Num b) = Num (a + b)"
| "js_add Undefined _ = NaN"
| "js_add _ Undefined = NaN"
| "js_add NaN _ = NaN"
| "js_add _ NaN = NaN"
| "js_add Infinity NegInfinity = NaN"
| "js_add NegInfinity Infinity = NaN"
| "js_add Infinity _ = Infinity"
| "js_add _ Infinity = Infinity"
| "js_add NegInfinity _ = NegInfinity"
| "js_add _ NegInfinity = NegInfinity"

text \<open>The operator \<open>/\<close>: a finite non-zero number over zero is an infinity of its sign.\<close>

fun js_div :: "number \<Rightarrow> number \<Rightarrow> number" where
  "js_div (Num a) (Num b) =
     (if b \<noteq> 0 then Num (a / b)
      else if a = 0 then NaN else if 0 < a then Infinity else NegInfinity)"
| "js_div Undefined _ = NaN"
| "js_div _ Undefined = NaN"
| "js_div NaN _ = NaN"
| "js_div _ NaN = NaN"
| "js_div (Num a) _ = Num 0"
| "js_div Infinity (Num b) = (if 0 \<le> b then Infinity else NegInfinity)"
| "js_div NegInfinity (Num b) = (if 0 \<le> b then NegInfinity else Infinity)"
| "js_div _ _ = NaN"

record Vector3 =
  vec_x :: number
  vec_y :: number
  vec_z :: number

datatype ObjectType = conveyor | robot_arm | box | safety_zone | cylinder | sphere | custom

text \<open>
  \<open>material\<close>, \<open>properties\<close>, \<open>highlighted\<close> and \<open>animating\<close> are optional fields of the interface
  (\<open>None\<close> is an absent or undefined field). \<open>position\<close>, \<open>color\<close> and \<open>visible\<close> are required
  by the interface, but \<open>applyAction\<close> can store \<open>undefined\<close> in them through its casts:
  there too \<open>None\<close> is \<open>undefined\<close>. The values of \<open>properties\<close> are opaque to the reducer
  and are kept as strings.
\<close>

record SceneObject =
  id' :: string
  type :: ObjectType
  name :: string
  position :: "Vector3 option"
  rotation :: Vector3
  scale :: Vector3
  color :: "string option"
  material :: "string option"
  properties :: "(string \<times> string) list option"
  visible :: "bool option"
  highlighted :: "bool option"
  animating :: "bool option"

record CameraState =
  cam_position :: Vector3
  cam_target :: Vector3
  zoom :: number

record LightingConfig =
  ambient_intensity :: real
  directional_intensity :: real
  directional_position :: Vector3

record EnvironmentConfig =
  grid_visible :: bool
  grid_size :: real
  background_color :: string

record SceneData =
  objects :: "SceneObject list"
  camera :: CameraState
  lighting :: LightingConfig
  environment :: EnvironmentConfig

text \<open>
  \<open>params\<close> is a \<open>Record<string, unknown>\<close> that the source reads through unchecked casts.
  The model gives every key that \<open>applyAction\<close> reads the type of its cast; \<open>None\<close> is a key
  that is absent. Numbers of the bag are finite (they arrive as JSON); a vector of the bag
  can lack a component (\<open>Undefined\<close>). \<open>duration\<close> is a whole number of milliseconds
  (\<open>setTimeout\<close> coerces its delay to an integer). The last three keys are those of \<open>LightingConfig\<close>, which
  \<open>set_lighting\<close> merges from the bag.
\<close>

record Params =
  p_type :: "ObjectType option"
  p_name :: "string option"
  p_position :: "Vector3 option"
  p_rotation :: "Vector3 option"
  p_scale :: "Vector3 option"
  p_color :: "string option"
  p_absolute :: "bool option"
  p_delta :: "Vector3 option"
  p_axis :: "string option"
  p_degrees :: "real option"
  p_factor :: "real option"
  p_visible :: "bool option"
  p_duration :: "int option"
  p_target :: "Vector3 option"
  p_direction :: "string option"
  p_amount :: "real option"
  p_size :: "Vector3 option"
  p_animate :: "bool option"
  p_keep_defaults :: "bool option"
  p_ambient_intensity :: "real option"
  p_directional_intensity :: "real option"
  p_directional_position :: "Vector3 option"

text \<open>
  The action kind is the string of the wire format: the \<open>switch\<close> of \<open>applyAction\<close> compares
  strings and has a \<open>default\<close> branch for every other one.
\<close>

record SceneAction =
  action :: string
  target :: "string option"
  params :: Params

record ActionResponse =
  success :: bool
  actions :: "SceneAction list"
  message :: string
  original_prompt :: string

record PromptHistoryEntry =
  entry_id :: string
  prompt :: string
  response :: ActionResponse
  timestamp :: nat

section \<open>State and reducer actions (frontend/src/context/SceneContext.tsx)\<close>

record CameraTransition =
  active :: bool
  targetPosition :: "Vector3 option"
  targetLookAt :: "Vector3 option"

record SceneState =
  sceneData :: SceneData
  selectedObjectId :: "string option"
  promptHistory :: "PromptHistoryEntry list"
  isLoading :: bool
  cameraTransition :: CameraTransition

text \<open>
  \<open>Partial<T>\<close>: \<open>None\<close> is a key the partial object does not have. For the fields of
  \<open>SceneObject\<close> that can hold \<open>undefined\<close> a key can be present with that value
  (\<open>Some None\<close>).
\<close>

record SceneObject_partial =
  u_id :: "string option"
  u_type :: "ObjectType option"
  u_name :: "string option"
  u_position :: "Vector3 option option"
  u_rotation :: "Vector3 option"
  u_scale :: "Vector3 option"
  u_color :: "string option option"
  u_material :: "string option option"
  u_properties :: "(string \<times> string) list option option"
  u_visible :: "bool option option"
  u_highlighted :: "bool option option"
  u_animating :: "bool option option"

record CameraState_partial =
  u_cam_position :: "Vector3 option"
  u_cam_target :: "Vector3 option"
  u_zoom :: "number option"

record LightingConfig_partial =
  u_ambient_intensity :: "real option"
  u_directional_intensity :: "real option"
  u_directional_position :: "Vector3 option"

record EnvironmentConfig_partial =
  u_grid_visible :: "bool option"
  u_grid_size :: "real option"
  u_background_color :: "string option"

text \<open>
  \<open>RESET_SCENE\<close> has an optional payload \<open>{ keepDefaults }\<close>; the inner option is a
  \<open>keepDefaults\<close> that is \<open>undefined\<close>. \<open>OTHER\<close> is an action object whose \<open>type\<close> is none of
  the twelve tags: the TypeScript type excludes it, the \<open>default\<close> branch of the reducer
  handles it.
\<close>

datatype SceneContextAction =
    SET_SCENE_DATA SceneData
  | ADD_OBJECT SceneObject
  | REMOVE_OBJECT string
  | UPDATE_OBJECT string SceneObject_partial
  | SELECT_OBJECT "string option"
  | SET_CAMERA CameraState_partial
  | SET_LIGHTING LightingConfig_partial
  | SET_ENVIRONMENT EnvironmentConfig_partial
  | ADD_PROMPT_HISTORY PromptHistoryEntry
  | SET_LOADING bool
  | SET_CAMERA_TRANSITION CameraTransition
  | RESET_SCENE "bool option option"
  | OTHER string

subsection \<open>Defaults\<close>

definition vec :: "real \<Rightarrow> real \<Rightarrow> real \<Rightarrow> Vector3" where
  "vec a b c = \<lparr>vec_x = Num a, vec_y = Num b, vec_z = Num c\<rparr>"

definition defaultCamera :: CameraState where
  "defaultCamera = \<lparr>cam_position = vec 15 12 15, cam_target = vec 0 1 0, zoom = Num 1\<rparr>"

definition defaultLighting :: LightingConfig where
  "defaultLighting =
     \<lparr>ambient_intensity = 4 / 10, directional_intensity = 8 / 10,
      directional_position = vec 10 20 10\<rparr>"

definition defaultEnvironment :: EnvironmentConfig where
  "defaultEnvironment =
     \<lparr>grid_visible = True, grid_size = 50, background_color = ''#1a1a2e''\<rparr>"

definition conveyor_1 :: SceneObject where
  "conveyor_1 =
     \<lparr>id' = ''conveyor_1'', type = conveyor, name = ''Main Conveyor Belt'',
      position = Some (vec 0 (1 / 2) 0), rotation = vec 0 0 0, scale = vec 1 1 1,
      color = Some ''#4a5568'', material = None, properties = None, visible = Some True,
      highlighted = None, animating = None\<rparr>"

definition robot_arm_1 :: SceneObject where
  "robot_arm_1 =
     \<lparr>id' = ''robot_arm_1'', type = robot_arm, name = ''Industrial Robot Arm'',
      position = Some (vec (- 5) 0 0), rotation = vec 0 45 0, scale = vec 1 1 1,
      color = Some ''#f59e0b'', material = None, properties = None, visible = Some True,
      highlighted = None, animating = None\<rparr>"

definition createInitialScene :: SceneData where
  "createInitialScene =
     \<lparr>objects = [conveyor_1, robot_arm_1], camera = defaultCamera,
      lighting = defaultLighting, environment = defaultEnvironment\<rparr>"

definition initialState :: SceneState where
  "initialState =
     \<lparr>sceneData = createInitialScene, selectedObjectId = None, promptHistory = [],
      isLoading = False,
      cameraTransition = \<lparr>active = False, targetPosition = None, targetLookAt = None\<rparr>\<rparr>"

subsection \<open>Object spread \<open>{ ...obj, ...updates }\<close>\<close>

definition override :: "'a \<Rightarrow> 'a option \<Rightarrow> 'a" where
  "override old new = (case new of None \<Rightarrow> old | Some v \<Rightarrow> v)"

definition merge_object :: "SceneObject \<Rightarrow> SceneObject_partial \<Rightarrow> SceneObject" where
  "merge_object obj u =
     \<lparr>id' = override (id' obj) (u_id u),
      type = override (type obj) (u_type u),
      name = override (name obj) (u_name u),
      position = override (position obj) (u_position u),
      rotation = override (rotation obj) (u_rotation u),
      scale = override (scale obj) (u_scale u),
      color = override (color obj) (u_color u),
      material = override (material obj) (u_material u),
      properties = override (properties obj) (u_properties u),
      visible = override (visible obj) (u_visible u),
      highlighted = override (highlighted obj) (u_highlighted u),
      animating = override (animating obj) (u_animating u)\<rparr>"

definition merge_camera :: "CameraState \<Rightarrow> CameraState_partial \<Rightarrow> CameraState" where
  "merge_camera c u =
     \<lparr>cam_position = override (cam_position c) (u_cam_position u),
      cam_target = override (cam_target c) (u_cam_target u),
      zoom = override (zoom c) (u_zoom u)\<rparr>"

definition merge_lighting :: "LightingConfig \<Rightarrow> LightingConfig_partial \<Rightarrow> LightingConfig" where
  "merge_lighting l u =
     \<lparr>ambient_intensity = override (ambient_intensity l) (u_ambient_intensity u),
      directional_intensity = override (directional_intensity l) (u_directional_intensity u),
      directional_position = override (directional_position l) (u_directional_position u)\<rparr>"

definition merge_environment ::
  "EnvironmentConfig \<Rightarrow> EnvironmentConfig_partial \<Rightarrow> EnvironmentConfig" where
  "merge_environment e u =
     \<lparr>grid_visible = override (grid_visible e) (u_grid_visible u),
      grid_size = override (grid_size e) (u_grid_size u),
      background_color = override (background_color e) (u_background_color u)\<rparr>"

definition no_updates :: SceneObject_partial where
  "no_updates =
     \<lparr>u_id = None, u_type = None, u_name = None, u_position = None, u_rotation = None,
      u_scale = None, u_color = None, u_material = None, u_properties = None,
      u_visible = None, u_highlighted = None, u_animating = None\<rparr>"

definition no_camera_updates :: CameraState_partial where
  "no_camera_updates = \<lparr>u_cam_position = None, u_cam_target = None, u_zoom = None\<rparr>"

subsection \<open>sceneReducer\<close>

fun sceneReducer :: "SceneState \<Rightarrow> SceneContextAction \<Rightarrow> SceneState" where
  "sceneReducer state (SET_SCENE_DATA payload) = state\<lparr>sceneData := payload\<rparr>"
| "sceneReducer state (ADD_OBJECT payload) =
     state\<lparr>sceneData := (sceneData state)
       \<lparr>objects := objects (sceneData state) @ [payload]\<rparr>\<rparr>"
| "sceneReducer state (REMOVE_OBJECT payload) =
     state\<lparr>sceneData := (sceneData state)
       \<lparr>objects := filter (\<lambda>obj. id' obj \<noteq> payload) (objects (sceneData state))\<rparr>,
       selectedObjectId :=
         (if selectedObjectId state = Some payload then None else selectedObjectId state)\<rparr>"
| "sceneReducer state (UPDATE_OBJECT i updates) =
     state\<lparr>sceneData := (sceneData state)
       \<lparr>objects :=
          map (\<lambda>obj. if id' obj = i then merge_object obj updates else obj)
            (objects (sceneData state))\<rparr>\<rparr>"
| "sceneReducer state (SELECT_OBJECT payload) = state\<lparr>selectedObjectId := payload\<rparr>"
| "sceneReducer state (SET_CAMERA payload) =
     state\<lparr>sceneData := (sceneData state)
       \<lparr>camera := merge_camera (camera (sceneData state)) payload\<rparr>\<rparr>"
| "sceneReducer state (SET_LIGHTING payload) =
     state\<lparr>sceneData := (sceneData state)
       \<lparr>lighting := merge_lighting (lighting (sceneData state)) payload\<rparr>\<rparr>"
| "sceneReducer state (SET_ENVIRONMENT payload) =
     state\<lparr>sceneData := (sceneData state)
       \<lparr>environment := merge_environment (environment (sceneData state)) payload\<rparr>\<rparr>"
| "sceneReducer state (ADD_PROMPT_HISTORY payload) =
     state\<lparr>promptHistory := take 50 (payload # promptHistory state)\<rparr>"
| "sceneReducer state (SET_LOADING payload) = state\<lparr>isLoading := payload\<rparr>"
| "sceneReducer state (SET_CAMERA_TRANSITION payload) = state\<lparr>cameraTransition := payload\<rparr>"
| "sceneReducer state (RESET_SCENE payload) =
     state\<lparr>sceneData :=
       (if payload = Some (Some True) then createInitialScene
        else \<lparr>objects = [], camera = defaultCamera, lighting = defaultLighting,
              environment = defaultEnvironment\<rparr>),
       selectedObjectId := None\<rparr>"
| "sceneReducer state (OTHER t) = state"

section \<open>applyAction\<close>

text \<open>
  \<open>TypeError\<close> is the exception JavaScript throws on reading a property of \<open>undefined\<close>,
  the only one that \<open>applyAction\<close> can raise.
\<close>

datatype error = TypeError

text \<open>The only closure handed to \<open>setTimeout\<close>: it dispatches the reversal of a highlight.\<close>

datatype callback = RevertHighlight string

datatype effect =
    Dispatch SceneContextAction
  | SetTimeout callback nat
  | ConsoleWarn string

subsection \<open>Truthiness and \<open>||\<close>\<close>

definition or_string :: "string option \<Rightarrow> string \<Rightarrow> string" where
  "or_string v d = (case v of None \<Rightarrow> d | Some s \<Rightarrow> if s = [] then d else s)"

text \<open>Zero, \<open>NaN\<close> and \<open>undefined\<close> are falsy.\<close>

definition or_number :: "number \<Rightarrow> number \<Rightarrow> number" where
  "or_number v d = (if v = Num 0 \<or> v = NaN \<or> v = Undefined then d else v)"

text \<open>A numeric key of the bag, read through \<open>as number\<close>.\<close>

definition as_number :: "real option \<Rightarrow> number" where
  "as_number v = (case v of None \<Rightarrow> Undefined | Some n \<Rightarrow> Num n)"

definition or_int :: "int option \<Rightarrow> int \<Rightarrow> int" where
  "or_int v d = (case v of None \<Rightarrow> d | Some n \<Rightarrow> if n = 0 then d else n)"

definition or_value :: "'a option \<Rightarrow> 'a \<Rightarrow> 'a" where
  "or_value v d = (case v of None \<Rightarrow> d | Some w \<Rightarrow> w)"

text \<open>The decimal digits of \<open>Date.now()\<close> in a template literal.\<close>

definition digit :: "nat \<Rightarrow> char" where
  "digit d =
     (if d = 0 then CHR ''0'' else if d = 1 then CHR ''1'' else if d = 2 then CHR ''2''
      else if d = 3 then CHR ''3'' else if d = 4 then CHR ''4'' else if d = 5 then CHR ''5''
      else if d = 6 then CHR ''6'' else if d = 7 then CHR ''7'' else if d = 8 then CHR ''8''
      else CHR ''9'')"

fun string_of_nat :: "nat \<Rightarrow> string" where
  "string_of_nat n =
     (if n < 10 then [digit n] else string_of_nat (n div 10) @ [digit (n mod 10)])"

declare string_of_nat.simps [simp del]

subsection \<open>The branches of the switch\<close>

definition with_target ::
  "string option \<Rightarrow> (string \<Rightarrow> error + effect list) \<Rightarrow> error + effect list" where
  "with_target tgt f =
     (case tgt of None \<Rightarrow> Inr [] | Some t \<Rightarrow> if t = [] then Inr [] else f t)"

definition find_object :: "SceneObject list \<Rightarrow> string \<Rightarrow> SceneObject option" where
  "find_object objs t = find (\<lambda>obj. id' obj = t) objs"

definition newObject :: "nat \<Rightarrow> string option \<Rightarrow> Params \<Rightarrow> SceneObject" where
  "newObject now tgt ps =
     \<lparr>id' = or_string tgt (''obj_'' @ string_of_nat now),
      type = or_value (p_type ps) box,
      name = or_string (p_name ps) ''New Object'',
      position = Some (or_value (p_position ps) (vec 0 0 0)),
      rotation = or_value (p_rotation ps) (vec 0 0 0),
      scale = or_value (p_scale ps) (vec 1 1 1),
      color = Some (or_string (p_color ps) ''#888888''),
      material = None, properties = None,
      visible = Some True,
      highlighted = None, animating = None\<rparr>"

definition safetyZone :: "nat \<Rightarrow> string option \<Rightarrow> Params \<Rightarrow> SceneObject" where
  "safetyZone now tgt ps =
     \<lparr>id' = or_string tgt (''safety_zone_'' @ string_of_nat now),
      type = safety_zone,
      name = ''Safety Zone'',
      position = Some (or_value (p_position ps) (vec 0 (5 / 100) 0)),
      rotation = vec 0 0 0,
      scale = or_value (p_size ps) (vec 5 (1 / 10) 5),
      color = Some (or_string (p_color ps) ''#ff4444''),
      material = None, properties = None,
      visible = Some True,
      highlighted = None, animating = None\<rparr>"

text \<open>
  The absolute branch stores \<open>params.position\<close> as it is, \<open>undefined\<close> when the key is
  absent. The relative branch reads \<open>targetObj.position.x\<close> and \<open>delta.x\<close>: either read
  throws when the object read from is \<open>undefined\<close>.
\<close>

definition move_object :: "SceneState \<Rightarrow> string \<Rightarrow> Params \<Rightarrow> error + effect list" where
  "move_object state t ps =
     (if p_absolute ps = Some True then
        Inr [Dispatch (UPDATE_OBJECT t (no_updates\<lparr>u_position := Some (p_position ps)\<rparr>))]
      else
        (case find_object (objects (sceneData state)) t of
           None \<Rightarrow> Inr []
         | Some targetObj \<Rightarrow>
             (case position targetObj of
                None \<Rightarrow> Inl TypeError
              | Some pos \<Rightarrow>
                  (case p_delta ps of
                     None \<Rightarrow> Inl TypeError
                   | Some delta \<Rightarrow>
                       Inr [Dispatch (UPDATE_OBJECT t (no_updates\<lparr>u_position := Some (Some
                         \<lparr>vec_x = js_add (vec_x pos) (or_number (vec_x delta) (Num 0)),
                          vec_y = js_add (vec_y pos) (or_number (vec_y delta) (Num 0)),
                          vec_z = js_add (vec_z pos) (or_number (vec_z delta) (Num 0))\<rparr>)\<rparr>))]))))"

text \<open>An absent \<open>degrees\<close> is \<open>undefined\<close>, and the sum with it is \<open>NaN\<close>.\<close>

definition rotate_object :: "SceneState \<Rightarrow> string \<Rightarrow> Params \<Rightarrow> error + effect list" where
  "rotate_object state t ps =
     (let axis = p_axis ps; degrees = as_number (p_degrees ps) in
      case find_object (objects (sceneData state)) t of
        None \<Rightarrow> Inr []
      | Some targetObj \<Rightarrow>
          Inr [Dispatch (UPDATE_OBJECT t (no_updates\<lparr>u_rotation := Some
            \<lparr>vec_x = (if axis = Some ''x'' then js_add (vec_x (rotation targetObj)) degrees
                       else vec_x (rotation targetObj)),
             vec_y = (if axis = Some ''y'' then js_add (vec_y (rotation targetObj)) degrees
                       else vec_y (rotation targetObj)),
             vec_z = (if axis = Some ''z'' then js_add (vec_z (rotation targetObj)) degrees
                       else vec_z (rotation targetObj))\<rparr>\<rparr>))])"

definition scale_object :: "string \<Rightarrow> Params \<Rightarrow> error + effect list" where
  "scale_object t ps =
     (let factor = as_number (p_factor ps) in
      Inr [Dispatch (UPDATE_OBJECT t (no_updates\<lparr>u_scale := Some
        \<lparr>vec_x = factor, vec_y = factor, vec_z = factor\<rparr>\<rparr>))])"

definition set_color :: "string \<Rightarrow> Params \<Rightarrow> error + effect list" where
  "set_color t ps =
     Inr [Dispatch (UPDATE_OBJECT t (no_updates\<lparr>u_color := Some (p_color ps)\<rparr>))]"

definition set_visibility :: "string \<Rightarrow> Params \<Rightarrow> error + effect list" where
  "set_visibility t ps =
     Inr [Dispatch (UPDATE_OBJECT t (no_updates\<lparr>u_visible := Some (p_visible ps)\<rparr>))]"

text \<open>\<open>setTimeout\<close> takes a negative delay as 0.\<close>

definition highlight_object :: "string \<Rightarrow> Params \<Rightarrow> error + effect list" where
  "highlight_object t ps =
     (let duration = or_int (p_duration ps) 3000 in
      Inr [Dispatch (UPDATE_OBJECT t (no_updates\<lparr>u_highlighted := Some (Some True)\<rparr>)),
           SetTimeout (RevertHighlight t) (nat duration)])"

definition camera_move :: "Params \<Rightarrow> error + effect list" where
  "camera_move ps =
     Inr [Dispatch (SET_CAMERA_TRANSITION
       \<lparr>active = True, targetPosition = p_position ps, targetLookAt = p_target ps\<rparr>)]"

definition camera_zoom :: "Params \<Rightarrow> error + effect list" where
  "camera_zoom ps =
     (let direction = p_direction ps;
          amount = or_number (as_number (p_amount ps)) (Num (1 / 2));
          zoomMultiplier =
            (if direction = Some ''in'' then js_add (Num 1) amount
             else js_div (Num 1) (js_add (Num 1) amount))
      in Inr [Dispatch (SET_CAMERA (no_camera_updates\<lparr>u_zoom := Some zoomMultiplier\<rparr>))])"

definition animate_object :: "string \<Rightarrow> Params \<Rightarrow> error + effect list" where
  "animate_object t ps =
     Inr [Dispatch (UPDATE_OBJECT t (no_updates\<lparr>u_animating := Some (p_animate ps)\<rparr>))]"

definition set_lighting :: "Params \<Rightarrow> error + effect list" where
  "set_lighting ps =
     Inr [Dispatch (SET_LIGHTING
       \<lparr>u_ambient_intensity = p_ambient_intensity ps,
        u_directional_intensity = p_directional_intensity ps,
        u_directional_position = p_directional_position ps\<rparr>)]"

subsection \<open>applyAction\<close>

text \<open>
  \<open>now\<close> is the value of \<open>Date.now()\<close>; \<open>state\<close> is the state that the closure of
  \<open>applyAction\<close> captured when the provider last rendered. The result lists, in order, what
  the call dispatches, schedules and logs.
\<close>

definition applyAction :: "nat \<Rightarrow> SceneState \<Rightarrow> SceneAction \<Rightarrow> error + effect list" where
  "applyAction now state a =
     (let actionType = action a; tgt = target a; ps = params a in
      if actionType = ''add_object'' then
        Inr [Dispatch (ADD_OBJECT (newObject now tgt ps))]
      else if actionType = ''remove_object'' then
        with_target tgt (\<lambda>t. Inr [Dispatch (REMOVE_OBJECT t)])
      else if actionType = ''move_object'' then
        with_target tgt (\<lambda>t. move_object state t ps)
      else if actionType = ''rotate_object'' then
        with_target tgt (\<lambda>t. rotate_object state t ps)
      else if actionType = ''scale_object'' then
        with_target tgt (\<lambda>t. scale_object t ps)
      else if actionType = ''set_color'' then
        with_target tgt (\<lambda>t. set_color t ps)
      else if actionType = ''set_visibility'' then
        with_target tgt (\<lambda>t. set_visibility t ps)
      else if actionType = ''highlight_object'' then
        with_target tgt (\<lambda>t. highlight_object t ps)
      else if actionType = ''camera_focus'' \<or> actionType = ''camera_move'' then
        camera_move ps
      else if actionType = ''camera_zoom'' then
        camera_zoom ps
      else if actionType = ''add_safety_zone'' then
        Inr [Dispatch (ADD_OBJECT (safetyZone now tgt ps))]
      else if actionType = ''animate_object'' then
        with_target tgt (\<lambda>t. animate_object t ps)
      else if actionType = ''reset_scene'' then
        Inr [Dispatch (RESET_SCENE (Some (p_keep_defaults ps)))]
      else if actionType = ''set_lighting'' then
        set_lighting ps
      else
        Inr [ConsoleWarn (''Unknown action type: '' @ actionType)])"

section \<open>The provider: reducer state, timers, batches\<close>

text \<open>
  \<open>current\<close> is the state held by \<open>useReducer\<close>, \<open>timers\<close> the pending \<open>setTimeout\<close> tasks
  with the time at which each is due, in the order of their registration, \<open>clock\<close> the time
  in milliseconds and \<open>console\<close> the warnings logged so far.
\<close>

record World =
  current :: SceneState
  timers :: "(nat \<times> callback) list"
  clock :: nat
  console :: "string list"

definition initialWorld :: World where
  "initialWorld = \<lparr>current = initialState, timers = [], clock = 0, console = []\<rparr>"

fun perform :: "World \<Rightarrow> effect \<Rightarrow> World" where
  "perform w (Dispatch a) = w\<lparr>current := sceneReducer (current w) a\<rparr>"
| "perform w (SetTimeout cb d) = w\<lparr>timers := timers w @ [(clock w + d, cb)]\<rparr>"
| "perform w (ConsoleWarn m) = w\<lparr>console := console w @ [m]\<rparr>"

text \<open>
  \<open>actions.forEach(applyAction)\<close>: every call of the loop runs the same closure, so all of
  them read the captured state \<open>snap\<close>, while the reducer folds each dispatch over the
  current state. An exception ends the loop; what was dispatched before it stays.
\<close>

fun applyActions :: "SceneState \<Rightarrow> SceneAction list \<Rightarrow> World \<Rightarrow> World \<times> error option" where
  "applyActions snap [] w = (w, None)"
| "applyActions snap (a # as) w =
     (case applyAction (clock w) snap a of
        Inl e \<Rightarrow> (w, Some e)
      | Inr effs \<Rightarrow> applyActions snap as (foldl perform w effs))"

text \<open>A handler of the latest render: the captured state is the current one.\<close>

definition handle_actions :: "SceneAction list \<Rightarrow> World \<Rightarrow> World \<times> error option" where
  "handle_actions as w = applyActions (current w) as w"

fun run_callback :: "callback \<Rightarrow> SceneContextAction" where
  "run_callback (RevertHighlight t) =
     UPDATE_OBJECT t (no_updates\<lparr>u_highlighted := Some (Some False)\<rparr>)"

text \<open>
  Time passes until \<open>t\<close>: the timers due by then fire in the order of their due times
  (registration order among equals), each dispatching into the reducer.
\<close>

definition advance :: "nat \<Rightarrow> World \<Rightarrow> World" where
  "advance t w =
     w\<lparr>current :=
         foldl sceneReducer (current w)
           (map (\<lambda>p. run_callback (snd p)) (sort_key fst (filter (\<lambda>p. fst p \<le> t) (timers w)))),
       timers := filter (\<lambda>p. \<not> fst p \<le> t) (timers w),
       clock := max (clock w) t\<rparr>"

definition no_params :: Params where
  "no_params =
     \<lparr>p_type = None, p_name = None, p_position = None, p_rotation = None, p_scale = None,
      p_color = None, p_absolute = None, p_delta = None, p_axis = None, p_degrees = None,
      p_factor = None, p_visible = None, p_duration = None, p_target = None,
      p_direction = None, p_amount = None, p_size = None, p_animate = None,
      p_keep_defaults = None, p_ambient_intensity = None, p_directional_intensity = None,
      p_directional_position = None\<rparr>"

definition ids :: "World \<Rightarrow> string list" where
  "ids w = map id' (objects (sceneData (current w)))"

section \<open>Vocabulary of the properties\<close>

text \<open>The case labels of the switch in \<open>applyAction\<close>, in its order.\<close>

definition handled_kinds :: "string list" where
  "handled_kinds =
     [''add_object'', ''remove_object'', ''move_object'', ''rotate_object'', ''scale_object'',
      ''set_color'', ''set_visibility'', ''highlight_object'', ''camera_focus'', ''camera_move'',
      ''camera_zoom'', ''add_safety_zone'', ''animate_object'', ''reset_scene'', ''set_lighting'']"

text \<open>The id under which \<open>add_object\<close> or \<open>add_safety_zone\<close> inserts its object.\<close>

definition created_id :: "nat \<Rightarrow> SceneAction \<Rightarrow> string" where
  "created_id now a =
     or_string (target a)
       ((if action a = ''add_object'' then ''obj_'' else ''safety_zone_'') @ string_of_nat now)"

text \<open>An action object \<open>{ action, target, params }\<close>.\<close>

definition act :: "string \<Rightarrow> string option \<Rightarrow> Params \<Rightarrow> SceneAction" where
  "act k t ps = \<lparr>action = k, target = t, params = ps\<rparr>"

section \<open>Properties\<close>

subsection \<open>Unfolding the model\<close>

lemmas eval_defs =
  act_def handle_actions_def initialWorld_def initialState_def createInitialScene_def
  conveyor_1_def robot_arm_1_def defaultCamera_def defaultLighting_def defaultEnvironment_def
  applyAction_def with_target_def move_object_def rotate_object_def highlight_object_def
  camera_move_def camera_zoom_def find_object_def no_params_def vec_def or_number_def
  or_int_def or_string_def or_value_def no_updates_def no_camera_updates_def merge_object_def
  merge_camera_def override_def advance_def ids_def newObject_def safetyZone_def as_number_def
  scale_object_def set_color_def set_visibility_def

lemma applyActions_single:
  "applyActions snap [a] w =
     (case applyAction (clock w) snap a of
        Inl e \<Rightarrow> (w, Some e)
      | Inr effs \<Rightarrow> (foldl perform w effs, None))"
  by (simp split: sum.splits)

lemma applyAction_reset_scene:
  "action a = ''reset_scene'' \<Longrightarrow>
   applyAction now snap a = Inr [Dispatch (RESET_SCENE (Some (p_keep_defaults (params a))))]"
  by (simp add: applyAction_def)

lemma applyAction_add_object:
  "action a = ''add_object'' \<Longrightarrow>
   applyAction now snap a = Inr [Dispatch (ADD_OBJECT (newObject now (target a) (params a)))]"
  by (simp add: applyAction_def)

lemma applyAction_add_safety_zone:
  "action a = ''add_safety_zone'' \<Longrightarrow>
   applyAction now snap a = Inr [Dispatch (ADD_OBJECT (safetyZone now (target a) (params a)))]"
  by (simp add: applyAction_def)

lemma applyAction_remove_object:
  "action a = ''remove_object'' \<Longrightarrow> target a = Some t \<Longrightarrow> t \<noteq> [] \<Longrightarrow>
   applyAction now snap a = Inr [Dispatch (REMOVE_OBJECT t)]"
  by (simp add: applyAction_def with_target_def)

lemma applyAction_highlight_object:
  "action a = ''highlight_object'' \<Longrightarrow> target a = Some t \<Longrightarrow> t \<noteq> [] \<Longrightarrow>
   applyAction now snap a = highlight_object t (params a)"
  by (simp add: applyAction_def with_target_def)

lemma applyAction_unknown:
  "action a \<notin> set handled_kinds \<Longrightarrow>
   applyAction now snap a = Inr [ConsoleWarn (''Unknown action type: '' @ action a)]"
  by (simp add: applyAction_def handled_kinds_def)

lemma handle_highlight:
  assumes "action a = ''highlight_object''" and "target a = Some t" and "t \<noteq> []"
  shows "applyActions snap [a] w =
           (w\<lparr>current := sceneReducer (current w)
                 (UPDATE_OBJECT t (no_updates\<lparr>u_highlighted := Some (Some True)\<rparr>)),
              timers := timers w @ [(clock w + nat (or_int (p_duration (params a)) 3000),
                                     RevertHighlight t)]\<rparr>, None)"
  using assms
  by (simp add: applyActions_single applyAction_highlight_object highlight_object_def)

lemma handle_remove:
  assumes "action a = ''remove_object''" and "target a = Some t" and "t \<noteq> []"
  shows "applyActions snap [a] w = (w\<lparr>current := sceneReducer (current w) (REMOVE_OBJECT t)\<rparr>, None)"
  using assms by (simp add: applyActions_single applyAction_remove_object)

lemma merge_object_highlighted:
  "merge_object obj (no_updates\<lparr>u_highlighted := Some h\<rparr>) = obj\<lparr>highlighted := h\<rparr>"
  by (cases obj) (simp add: merge_object_def no_updates_def override_def)

lemma fire_objects:
  "objects (sceneData (foldl sceneReducer s (map (\<lambda>p. run_callback (snd p)) ps))) =
     map (\<lambda>obj. if RevertHighlight (id' obj) \<in> snd ` set ps
                then obj\<lparr>highlighted := Some False\<rparr> else obj)
       (objects (sceneData s))"
proof (induction ps arbitrary: s)
  case Nil
  then show ?case by simp
next
  case (Cons p ps)
  obtain d t where p: "p = (d, RevertHighlight t)"
    by (cases p, cases "snd p") auto
  show ?case
    unfolding list.map foldl_Cons Cons.IH
    by (auto simp add: p merge_object_highlighted)
qed

lemma ids_advance: "ids (advance T w) = ids w"
  by (simp add: ids_def advance_def fire_objects o_def)

lemma highlighted_after_advance:
  assumes "(d, RevertHighlight t) \<in> set (timers w)" and "d \<le> T"
    and "obj \<in> set (objects (sceneData (current (advance T w))))" and "id' obj = t"
  shows "highlighted obj = Some False"
proof -
  have "RevertHighlight t \<in> snd ` set (sort_key fst (filter (\<lambda>p. fst p \<le> T) (timers w)))"
    using assms(1,2) by force
  with assms(3,4) show ?thesis
    by (auto simp add: advance_def fire_objects)
qed

subsection \<open>Batches\<close>

text \<open>
  C1. Spec: in a batch applied by \<open>applyActions\<close> every action observes the state left by
  the previous action of the batch, so that a relative \<open>move_object\<close> with delta (2, 0, 0)
  applied twice to one target moves it by 4. The code at this input: both calls of the
  batch read the position captured by the closure, and the conveyor, which starts at
  x = 0, ends at x = 2.
\<close>

theorem batch_move_twice_uses_stale_state:
  "map position (objects (sceneData (current initialWorld))) =
     [Some (vec 0 (1 / 2) 0), Some (vec (- 5) 0 0)] \<and>
   snd (handle_actions
      [act ''move_object'' (Some ''conveyor_1'') (no_params\<lparr>p_absolute := Some False, p_delta := Some (vec 2 0 0)\<rparr>),
       act ''move_object'' (Some ''conveyor_1'') (no_params\<lparr>p_absolute := Some False, p_delta := Some (vec 2 0 0)\<rparr>)]
      initialWorld) = None \<and>
   map position (objects (sceneData (current (fst (handle_actions
      [act ''move_object'' (Some ''conveyor_1'') (no_params\<lparr>p_absolute := Some False, p_delta := Some (vec 2 0 0)\<rparr>),
       act ''move_object'' (Some ''conveyor_1'') (no_params\<lparr>p_absolute := Some False, p_delta := Some (vec 2 0 0)\<rparr>)]
      initialWorld))))) = [Some (vec 2 (1 / 2) 0), Some (vec (- 5) 0 0)]"
  by (simp add: eval_defs)

subsection \<open>Camera zoom\<close>

text \<open>
  C2. Spec: \<open>camera_zoom\<close> multiplies the current zoom by 1 + amount (direction "in") or by
  1 / (1 + amount) (direction "out"). The code at this input: zooming in by amount 1 sets
  the zoom to 2 from the default zoom 1, and a second such action leaves it at 2, where
  the product is 4: the factor replaces the zoom.
\<close>

theorem camera_zoom_replaces_zoom:
  "zoom (camera (sceneData (current (fst (handle_actions
      [act ''camera_zoom'' None (no_params\<lparr>p_direction := Some ''in'', p_amount := Some 1\<rparr>)]
      initialWorld))))) = Num 2 \<and>
   zoom (camera (sceneData (current (fst (handle_actions
      [act ''camera_zoom'' None (no_params\<lparr>p_direction := Some ''in'', p_amount := Some 1\<rparr>)]
      (fst (handle_actions
      [act ''camera_zoom'' None (no_params\<lparr>p_direction := Some ''in'', p_amount := Some 1\<rparr>)]
      initialWorld))))))) = Num 2"
  by (simp add: eval_defs)

subsection \<open>Creation of objects\<close>

text \<open>
  C3, as amended. \<open>add_object\<close> and \<open>add_safety_zone\<close> never reject: they append the new
  object after the existing ones under the given id, or under the generated one when no
  target is given, also when an object with that id exists. The ids of the resulting
  state are pairwise distinct exactly when they were distinct before and the new id was
  not among them.
\<close>

theorem add_object_appends_unconditionally:
  assumes "action a = ''add_object'' \<or> action a = ''add_safety_zone''"
  shows "snd (applyActions snap [a] w) = None \<and>
         ids (fst (applyActions snap [a] w)) = ids w @ [created_id (clock w) a] \<and>
         (distinct (ids (fst (applyActions snap [a] w))) \<longleftrightarrow>
            distinct (ids w) \<and> created_id (clock w) a \<notin> set (ids w))"
proof -
  from assms show ?thesis
  proof
    assume "action a = ''add_object''"
    then show ?thesis
      by (auto simp add: applyActions_single applyAction_add_object newObject_def ids_def created_id_def)
  next
    assume "action a = ''add_safety_zone''"
    then show ?thesis
      by (auto simp add: applyActions_single applyAction_add_safety_zone safetyZone_def ids_def created_id_def)
  qed
qed

theorem add_object_appends_unconditionally_witness:
  "(action (act ''add_object'' (Some ''box_1'') no_params) = ''add_object'' \<or>
    action (act ''add_object'' (Some ''box_1'') no_params) = ''add_safety_zone'') \<and>
   ids (fst (applyActions initialState [act ''add_object'' (Some ''box_1'') no_params] initialWorld))
     = [''conveyor_1'', ''robot_arm_1'', ''box_1''] \<and>
   distinct (ids (fst (applyActions initialState [act ''add_object'' (Some ''box_1'') no_params] initialWorld)))"
  using add_object_appends_unconditionally [of "act ''add_object'' (Some ''box_1'') no_params" initialState initialWorld]
  by (simp add: act_def created_id_def or_string_def) (simp add: eval_defs)

text \<open>
  C3 as stated (an action carrying an id that exists is rejected and the state is returned
  unchanged) fails on the initial scene: \<open>add_object\<close> with target \<open>conveyor_1\<close> changes
  the state, and two objects then share that id.
\<close>

theorem add_object_existing_id_counterexample:
  "''conveyor_1'' \<in> set (ids initialWorld) \<and>
   current (fst (handle_actions [act ''add_object'' (Some ''conveyor_1'') no_params] initialWorld))
     \<noteq> current initialWorld \<and>
   ids (fst (handle_actions [act ''add_object'' (Some ''conveyor_1'') no_params] initialWorld))
     = [''conveyor_1'', ''robot_arm_1'', ''conveyor_1''] \<and>
   \<not> distinct (ids (fst (handle_actions [act ''add_object'' (Some ''conveyor_1'') no_params] initialWorld)))"
  by (simp add: eval_defs)

text \<open>
  C10. Every object inserted by \<open>add_object\<close> or \<open>add_safety_zone\<close> is visible and neither
  highlighted nor animating, whatever the parameters of the action, and it is appended
  to the objects of the state.
\<close>

theorem created_objects_start_visible:
  assumes "action a = ''add_object'' \<or> action a = ''add_safety_zone''"
  shows "\<exists>obj. snd (applyActions snap [a] w) = None \<and>
           objects (sceneData (current (fst (applyActions snap [a] w)))) =
             objects (sceneData (current w)) @ [obj] \<and>
           visible obj = Some True \<and> highlighted obj = None \<and> animating obj = None"
proof -
  from assms show ?thesis
  proof
    assume "action a = ''add_object''"
    then show ?thesis
      by (simp add: applyActions_single applyAction_add_object newObject_def)
  next
    assume "action a = ''add_safety_zone''"
    then show ?thesis
      by (simp add: applyActions_single applyAction_add_safety_zone safetyZone_def)
  qed
qed

theorem created_objects_start_visible_witness:
  "(action (act ''add_safety_zone'' None no_params) = ''add_object'' \<or>
    action (act ''add_safety_zone'' None no_params) = ''add_safety_zone'') \<and>
   map visible (objects (sceneData (current (fst (applyActions initialState
      [act ''add_safety_zone'' None no_params] initialWorld))))) =
     [Some True, Some True, Some True] \<and>
   map highlighted (objects (sceneData (current (fst (applyActions initialState
      [act ''add_safety_zone'' None no_params] initialWorld))))) = [None, None, None] \<and>
   map animating (objects (sceneData (current (fst (applyActions initialState
      [act ''add_safety_zone'' None no_params] initialWorld))))) = [None, None, None]"
  using created_objects_start_visible [of "act ''add_safety_zone'' None no_params"
      initialState initialWorld]
  by (simp add: act_def) (simp add: eval_defs)

subsection \<open>Highlights and their reversal\<close>

text \<open>
  C4, as amended. A second \<open>highlight_object\<close> on an id, issued before the duration of
  the first has elapsed, does not cancel the reversal that the first one scheduled: both
  reversals stay pending, and once the duration of the first has elapsed every object
  with that id has \<open>highlighted = false\<close>, whether or not the duration of the second has
  elapsed.
\<close>

theorem second_highlight_keeps_first_reversal:
  assumes "action h1 = ''highlight_object''" and "target h1 = Some t" and "t \<noteq> []"
    and "action h2 = ''highlight_object''" and "target h2 = Some t"
    and "T1 < clock w + nat (or_int (p_duration (params h1)) 3000)"
    and "clock w + nat (or_int (p_duration (params h1)) 3000) \<le> T"
  shows "let d1 = nat (or_int (p_duration (params h1)) 3000);
             d2 = nat (or_int (p_duration (params h2)) 3000);
             w1 = fst (handle_actions [h1] w);
             w2 = fst (handle_actions [h2] (advance T1 w1));
             w3 = advance T w2
         in (clock w + d1, RevertHighlight t) \<in> set (timers w2) \<and>
            (max (clock w) T1 + d2, RevertHighlight t) \<in> set (timers w2) \<and>
            (\<forall>obj \<in> set (objects (sceneData (current w3))).
               id' obj = t \<longrightarrow> highlighted obj = Some False)"
proof -
  define d1 where "d1 = nat (or_int (p_duration (params h1)) 3000)"
  define d2 where "d2 = nat (or_int (p_duration (params h2)) 3000)"
  define w1 where "w1 = w\<lparr>current := sceneReducer (current w)
                 (UPDATE_OBJECT t (no_updates\<lparr>u_highlighted := Some (Some True)\<rparr>)),
              timers := timers w @ [(clock w + d1, RevertHighlight t)]\<rparr>"
  define v where "v = advance T1 w1"
  define w2 where "w2 = v\<lparr>current := sceneReducer (current v)
                 (UPDATE_OBJECT t (no_updates\<lparr>u_highlighted := Some (Some True)\<rparr>)),
              timers := timers v @ [(clock v + d2, RevertHighlight t)]\<rparr>"
  have h1: "handle_actions [h1] w = (w1, None)"
    unfolding handle_actions_def w1_def d1_def by (rule handle_highlight [OF assms(1-3)])
  have h2: "handle_actions [h2] v = (w2, None)"
    unfolding handle_actions_def w2_def d2_def by (rule handle_highlight [OF assms(4,5,3)])
  have clock_v: "clock v = max (clock w) T1"
    by (simp add: v_def advance_def w1_def)
  have first_v: "(clock w + d1, RevertHighlight t) \<in> set (timers v)"
    using assms(6) by (simp add: v_def advance_def w1_def d1_def)
  then have first: "(clock w + d1, RevertHighlight t) \<in> set (timers w2)"
    by (simp add: w2_def)
  have second: "(max (clock w) T1 + d2, RevertHighlight t) \<in> set (timers w2)"
    by (simp add: w2_def clock_v)
  have off: "highlighted obj = Some False"
    if "obj \<in> set (objects (sceneData (current (advance T w2))))" and "id' obj = t" for obj
    using first assms(7) that unfolding d1_def
    by (rule highlighted_after_advance)
  show ?thesis
    using first second off
    by (simp add: Let_def h1 h2 v_def [symmetric] d1_def [symmetric] d2_def [symmetric])
qed

theorem second_highlight_keeps_first_reversal_witness:
  "action (act ''highlight_object'' (Some ''conveyor_1'') no_params) = ''highlight_object'' \<and>
   target (act ''highlight_object'' (Some ''conveyor_1'') no_params) = Some ''conveyor_1'' \<and>
   ''conveyor_1'' \<noteq> [] \<and>
   (1000::nat) < clock initialWorld
      + nat (or_int (p_duration (params (act ''highlight_object'' (Some ''conveyor_1'') no_params))) 3000) \<and>
   clock initialWorld
      + nat (or_int (p_duration (params (act ''highlight_object'' (Some ''conveyor_1'') no_params))) 3000)
      \<le> (3500::nat) \<and>
   map highlighted (objects (sceneData (current (advance 3500 (fst (handle_actions
       [act ''highlight_object'' (Some ''conveyor_1'') no_params]
       (advance 1000 (fst (handle_actions
          [act ''highlight_object'' (Some ''conveyor_1'') no_params] initialWorld))))))))) =
     [Some False, None]"
  using second_highlight_keeps_first_reversal
     [of "act ''highlight_object'' (Some ''conveyor_1'') no_params" "''conveyor_1''"
         "act ''highlight_object'' (Some ''conveyor_1'') no_params" 1000 initialWorld 3500]
  by (simp add: Let_def act_def) (simp add: eval_defs)

text \<open>
  C4 as stated (the flag is not reverted before the full duration of the second action has
  elapsed) fails: with two highlights of 3000 ms at times 0 and 1000, the conveyor is
  highlighted after the second and is no longer at time 3000, before 1000 + 3000.
\<close>

theorem second_highlight_counterexample:
  "map highlighted (objects (sceneData (current (fst (handle_actions
       [act ''highlight_object'' (Some ''conveyor_1'') (no_params\<lparr>p_duration := Some 3000\<rparr>)]
       (advance 1000 (fst (handle_actions
          [act ''highlight_object'' (Some ''conveyor_1'') (no_params\<lparr>p_duration := Some 3000\<rparr>)]
          initialWorld)))))))) = [Some True, None] \<and>
   map highlighted (objects (sceneData (current (advance 3000 (fst (handle_actions
       [act ''highlight_object'' (Some ''conveyor_1'') (no_params\<lparr>p_duration := Some 3000\<rparr>)]
       (advance 1000 (fst (handle_actions
          [act ''highlight_object'' (Some ''conveyor_1'') (no_params\<lparr>p_duration := Some 3000\<rparr>)]
          initialWorld))))))))) = [Some False, None] \<and>
   (3000::nat) < 1000 + 3000"
  by (simp add: eval_defs)

text \<open>
  C8. An object is highlighted by \<open>highlight_object\<close> and removed by \<open>remove_object\<close>
  while the reversal is pending. Neither action raises, the removal leaves no object
  with that id, and letting any amount of time pass afterwards (the reversal fires) does
  not change the ids of the scene: the removed object is not revived.
\<close>

theorem removed_object_not_revived:
  assumes "action h = ''highlight_object''" and "target h = Some t" and "t \<noteq> []"
    and "action r = ''remove_object''" and "target r = Some t"
  shows "let w1 = handle_actions [h] w;
             w2 = handle_actions [r] (advance T0 (fst w1));
             w3 = advance T (fst w2)
         in snd w1 = None \<and> snd w2 = None \<and>
            (clock w + nat (or_int (p_duration (params h)) 3000), RevertHighlight t)
               \<in> set (timers (fst w1)) \<and>
            t \<notin> set (ids (fst w2)) \<and> ids w3 = ids (fst w2) \<and> t \<notin> set (ids w3)"
proof -
  define d where "d = clock w + nat (or_int (p_duration (params h)) 3000)"
  define w1 where "w1 = w\<lparr>current := sceneReducer (current w)
                 (UPDATE_OBJECT t (no_updates\<lparr>u_highlighted := Some (Some True)\<rparr>)),
              timers := timers w @ [(d, RevertHighlight t)]\<rparr>"
  define w2 where "w2 = (advance T0 w1)\<lparr>current := sceneReducer (current (advance T0 w1)) (REMOVE_OBJECT t)\<rparr>"
  have h: "handle_actions [h] w = (w1, None)"
    unfolding handle_actions_def w1_def d_def by (rule handle_highlight [OF assms(1-3)])
  have r: "handle_actions [r] (advance T0 w1) = (w2, None)"
    unfolding handle_actions_def w2_def by (rule handle_remove [OF assms(4,5,3)])
  have gone: "t \<notin> set (ids w2)"
    by (auto simp add: w2_def ids_def)
  have pending: "(d, RevertHighlight t) \<in> set (timers w1)"
    by (simp add: w1_def)
  show ?thesis
    using gone pending by (simp add: Let_def h r ids_advance d_def)
qed

theorem removed_object_not_revived_witness:
  "action (act ''highlight_object'' (Some ''conveyor_1'') no_params) = ''highlight_object'' \<and>
   target (act ''highlight_object'' (Some ''conveyor_1'') no_params) = Some ''conveyor_1'' \<and>
   ''conveyor_1'' \<noteq> [] \<and>
   action (act ''remove_object'' (Some ''conveyor_1'') no_params) = ''remove_object'' \<and>
   target (act ''remove_object'' (Some ''conveyor_1'') no_params) = Some ''conveyor_1'' \<and>
   ''conveyor_1'' \<in> set (ids (fst (handle_actions [act ''highlight_object'' (Some ''conveyor_1'') no_params] initialWorld))) \<and>
   ''conveyor_1'' \<notin> set (ids (advance 3000 (fst (handle_actions
       [act ''remove_object'' (Some ''conveyor_1'') no_params]
       (advance 1000 (fst (handle_actions
          [act ''highlight_object'' (Some ''conveyor_1'') no_params] initialWorld)))))))"
  using removed_object_not_revived [of "act ''highlight_object'' (Some ''conveyor_1'') no_params"
      "''conveyor_1''" "act ''remove_object'' (Some ''conveyor_1'') no_params" initialWorld 1000 3000]
  by (simp add: Let_def act_def) (simp add: eval_defs)

subsection \<open>Reset\<close>

text \<open>
  C5, as amended. \<open>reset_scene\<close> leaves \<open>cameraTransition\<close> as it was: a transition that
  was active before the reset is still active after it.
\<close>

theorem reset_scene_keeps_cameraTransition:
  assumes "action a = ''reset_scene''"
  shows "cameraTransition (current (fst (applyActions snap [a] w))) = cameraTransition (current w)"
  using assms by (simp add: applyActions_single applyAction_reset_scene)

theorem reset_scene_keeps_cameraTransition_witness:
  "action (act ''reset_scene'' None (no_params\<lparr>p_keep_defaults := Some True\<rparr>)) = ''reset_scene'' \<and>
   cameraTransition (current (fst (applyActions initialState
      [act ''reset_scene'' None (no_params\<lparr>p_keep_defaults := Some True\<rparr>)] initialWorld))) =
   \<lparr>active = False, targetPosition = None, targetLookAt = None\<rparr>"
  using reset_scene_keeps_cameraTransition [of "act ''reset_scene'' None (no_params\<lparr>p_keep_defaults := Some True\<rparr>)" initialState initialWorld]
  by (simp add: act_def) (simp add: eval_defs)

text \<open>
  C5 as stated (\<open>cameraTransition.active\<close> is false after \<open>reset_scene\<close>) fails after a
  \<open>camera_move\<close>: the transition is active before the reset and after it.
\<close>

theorem reset_scene_counterexample:
  "active (cameraTransition (current (fst (handle_actions
      [act ''camera_move'' None (no_params\<lparr>p_position := Some (vec 5 5 5)\<rparr>)] initialWorld)))) \<and>
   active (cameraTransition (current (fst (handle_actions
      [act ''reset_scene'' None (no_params\<lparr>p_keep_defaults := Some True\<rparr>)]
      (fst (handle_actions
      [act ''camera_move'' None (no_params\<lparr>p_position := Some (vec 5 5 5)\<rparr>)] initialWorld))))))"
  by (simp add: eval_defs)

text \<open>
  C6. Whatever the prior state, \<open>reset_scene\<close> with \<open>keep_defaults = true\<close> yields the
  initial scene, whose objects are the conveyor and the robot arm with their default
  fields; with \<open>keep_defaults = false\<close> it yields no objects and the default camera,
  lighting and environment. In both cases the selection is cleared and nothing is raised.
\<close>

theorem reset_scene_result:
  assumes "action a = ''reset_scene''"
  shows "snd (applyActions snap [a] w) = None \<and>
         selectedObjectId (current (fst (applyActions snap [a] w))) = None \<and>
         (p_keep_defaults (params a) = Some True \<longrightarrow>
            objects (sceneData (current (fst (applyActions snap [a] w)))) = [conveyor_1, robot_arm_1] \<and>
            sceneData (current (fst (applyActions snap [a] w))) = createInitialScene) \<and>
         (p_keep_defaults (params a) = Some False \<longrightarrow>
            objects (sceneData (current (fst (applyActions snap [a] w)))) = [] \<and>
            camera (sceneData (current (fst (applyActions snap [a] w)))) = defaultCamera \<and>
            lighting (sceneData (current (fst (applyActions snap [a] w)))) = defaultLighting \<and>
            environment (sceneData (current (fst (applyActions snap [a] w)))) = defaultEnvironment)"
  using assms
  by (simp add: applyActions_single applyAction_reset_scene createInitialScene_def)

theorem reset_scene_result_witness:
  "action (act ''reset_scene'' None (no_params\<lparr>p_keep_defaults := Some True\<rparr>)) = ''reset_scene'' \<and>
   action (act ''reset_scene'' None (no_params\<lparr>p_keep_defaults := Some False\<rparr>)) = ''reset_scene'' \<and>
   objects (sceneData (current (fst (applyActions initialState
      [act ''reset_scene'' None (no_params\<lparr>p_keep_defaults := Some True\<rparr>)]
      (initialWorld\<lparr>current := initialState\<lparr>selectedObjectId := Some ''robot_arm_1''\<rparr>\<rparr>))))) =
     [conveyor_1, robot_arm_1] \<and>
   sceneData (current (fst (applyActions initialState
      [act ''reset_scene'' None (no_params\<lparr>p_keep_defaults := Some False\<rparr>)]
      (initialWorld\<lparr>current := initialState\<lparr>selectedObjectId := Some ''robot_arm_1''\<rparr>\<rparr>)))) =
     \<lparr>objects = [], camera = defaultCamera, lighting = defaultLighting,
      environment = defaultEnvironment\<rparr> \<and>
   selectedObjectId (current (fst (applyActions initialState
      [act ''reset_scene'' None (no_params\<lparr>p_keep_defaults := Some False\<rparr>)]
      (initialWorld\<lparr>current := initialState\<lparr>selectedObjectId := Some ''robot_arm_1''\<rparr>\<rparr>)))) = None"
  using
    reset_scene_result [of "act ''reset_scene'' None (no_params\<lparr>p_keep_defaults := Some True\<rparr>)"
      initialState "initialWorld\<lparr>current := initialState\<lparr>selectedObjectId := Some ''robot_arm_1''\<rparr>\<rparr>"]
    reset_scene_result [of "act ''reset_scene'' None (no_params\<lparr>p_keep_defaults := Some False\<rparr>)"
      initialState "initialWorld\<lparr>current := initialState\<lparr>selectedObjectId := Some ''robot_arm_1''\<rparr>\<rparr>"]
  by (simp add: act_def no_params_def) (simp add: eval_defs)

subsection \<open>Unknown kinds and exceptions\<close>

text \<open>
  For an action whose kind is none of the case labels of \<open>applyAction\<close>, the call raises
  nothing, dispatches nothing and schedules nothing: it logs a warning, and the state and
  the timers are as before. On an action type it does not know the reducer returns its
  state.
\<close>

lemma unknown_kind_only_warns:
  assumes "action a \<notin> set handled_kinds"
  shows "applyAction now snap a = Inr [ConsoleWarn (''Unknown action type: '' @ action a)]"
    and "snd (applyActions snap [a] w) = None"
    and "current (fst (applyActions snap [a] w)) = current w"
    and "timers (fst (applyActions snap [a] w)) = timers w"
    and "sceneReducer s (OTHER (action a)) = s"
  using assms by (simp_all add: applyActions_single applyAction_unknown)

text \<open>
  C7. Spec: an action of an unknown kind leaves the state unchanged and raises nothing,
  and the reducer never throws for a structurally valid action. The code at this input: a
  \<open>move_object\<close> with \<open>absolute = false\<close> and no \<open>delta\<close>, on the conveyor of the initial
  scene, throws \<open>TypeError\<close> on reading \<open>delta.x\<close>, and the exception ends the batch
  before its next action. The same exception is thrown on reading
  \<open>targetObj.position.x\<close> after an absolute \<open>move_object\<close> without \<open>position\<close> has stored
  \<open>undefined\<close> as the position.
\<close>

theorem move_object_without_delta_throws:
  "applyAction 0 initialState
      (act ''move_object'' (Some ''conveyor_1'') (no_params\<lparr>p_absolute := Some False\<rparr>)) =
     Inl TypeError \<and>
   handle_actions
      [act ''move_object'' (Some ''conveyor_1'') (no_params\<lparr>p_absolute := Some False\<rparr>),
       act ''remove_object'' (Some ''robot_arm_1'') no_params] initialWorld =
     (initialWorld, Some TypeError) \<and>
   map position (objects (sceneData (current (fst (handle_actions
      [act ''move_object'' (Some ''conveyor_1'') (no_params\<lparr>p_absolute := Some True\<rparr>)]
      initialWorld))))) = [None, Some (vec (- 5) 0 0)] \<and>
   snd (handle_actions
      [act ''move_object'' (Some ''conveyor_1'')
         (no_params\<lparr>p_absolute := Some False, p_delta := Some (vec 2 0 0)\<rparr>)]
      (fst (handle_actions
        [act ''move_object'' (Some ''conveyor_1'') (no_params\<lparr>p_absolute := Some True\<rparr>)]
        initialWorld))) = Some TypeError"
  by (simp add: eval_defs)

subsection \<open>Rotation\<close>

text \<open>
  C9. Spec: \<open>rotate_object\<close> adds \<open>degrees\<close> to the rotation component named by \<open>axis\<close>,
  and applied twice on axis y with 45 degrees it yields \<open>rotation.y = 90\<close>. The code at
  this input: two such actions in one batch both read the rotation captured by the
  closure, and the conveyor, which starts at \<open>rotation.y = 0\<close>, ends at 45. Issued from
  two handlers with a render between them, the same two actions give 90.
\<close>

theorem batch_rotate_twice_uses_stale_state:
  "map rotation (objects (sceneData (current initialWorld))) = [vec 0 0 0, vec 0 45 0] \<and>
   snd (handle_actions
      [act ''rotate_object'' (Some ''conveyor_1'') (no_params\<lparr>p_axis := Some ''y'', p_degrees := Some 45\<rparr>),
       act ''rotate_object'' (Some ''conveyor_1'') (no_params\<lparr>p_axis := Some ''y'', p_degrees := Some 45\<rparr>)]
      initialWorld) = None \<and>
   map rotation (objects (sceneData (current (fst (handle_actions
      [act ''rotate_object'' (Some ''conveyor_1'') (no_params\<lparr>p_axis := Some ''y'', p_degrees := Some 45\<rparr>),
       act ''rotate_object'' (Some ''conveyor_1'') (no_params\<lparr>p_axis := Some ''y'', p_degrees := Some 45\<rparr>)]
      initialWorld))))) = [vec 0 45 0, vec 0 45 0] \<and>
   map rotation (objects (sceneData (current (fst (handle_actions
      [act ''rotate_object'' (Some ''conveyor_1'') (no_params\<lparr>p_axis := Some ''y'', p_degrees := Some 45\<rparr>)]
      (fst (handle_actions
      [act ''rotate_object'' (Some ''conveyor_1'') (no_params\<lparr>p_axis := Some ''y'', p_degrees := Some 45\<rparr>)]
      initialWorld))))))) = [vec 0 90 0, vec 0 45 0]"
  by (simp add: eval_defs)

end
